theory Spec2Isabelle
  imports Main "HOL-Library.AList"
begin

section \<open>Values, failures and results\<close>

text \<open>
  The Python failures the modelled code can raise.  \<open>NamingFailure\<close> stands for
  whatever the external \<^verbatim>\<open>validate_name\<close> raises.
\<close>

datatype error = TypeError | AttributeError | KeyError | ValueError | AssertionError | NamingFailure

text \<open>Payloads of parameters (\<^verbatim>\<open>Any\<close> in the source), as far as the model needs them.\<close>

datatype py_value = PyNone | PyInt int | PyStr string

record parameter =
  p_name :: string
  p_value :: py_value

record artifact =
  a_name :: string

text \<open>An element of \<^verbatim>\<open>List[Union[Parameter, Artifact]]\<close>.\<close>

datatype io = IsParameter parameter | IsArtifact artifact

fun io_name :: "io \<Rightarrow> string" where
  "io_name (IsParameter p) = p_name p"
| "io_name (IsArtifact a) = a_name a"

fun is_Parameter :: "io \<Rightarrow> bool" where
  "is_Parameter (IsParameter p) = True"
| "is_Parameter (IsArtifact a) = False"

fun is_Artifact :: "io \<Rightarrow> bool" where
  "is_Artifact (IsParameter p) = False"
| "is_Artifact (IsArtifact a) = True"

section \<open>Input normalisation (\<^verbatim>\<open>_parse_inputs\<close>)\<close>

text \<open>
  A Python \<^verbatim>\<open>dict\<close> is its list of items in insertion order.  An element of an
  input list is a Parameter, an Artifact, a dict, or anything else (which the loop
  skips: the \<^verbatim>\<open>if\<close>/\<^verbatim>\<open>elif\<close> has no \<^verbatim>\<open>else\<close>).
\<close>

type_synonym py_dict = "(string \<times> py_value) list"

datatype input_item =
  ItemParameter parameter | ItemArtifact artifact | ItemDict py_dict | ItemOther py_value

datatype inputs_arg = InputsNone | InputsDict py_dict | InputsList "input_item list"

text \<open>\<^verbatim>\<open>for k, v in d.items(): result.append(Parameter(name=k, value=v))\<close>\<close>

fun append_items :: "py_dict \<Rightarrow> io list \<Rightarrow> io list" where
  "append_items [] result = result"
| "append_items ((k, v) # kvs) result =
     append_items kvs (result @ [IsParameter \<lparr>p_name = k, p_value = v\<rparr>])"

text \<open>The \<^verbatim>\<open>for i in inputs\<close> loop of the \<^verbatim>\<open>else\<close> branch.\<close>

fun append_inputs :: "input_item list \<Rightarrow> io list \<Rightarrow> io list" where
  "append_inputs [] result = result"
| "append_inputs (ItemParameter p # is) result = append_inputs is (result @ [IsParameter p])"
| "append_inputs (ItemArtifact a # is) result = append_inputs is (result @ [IsArtifact a])"
| "append_inputs (ItemDict d # is) result = append_inputs is (append_items d result)"
| "append_inputs (ItemOther x # is) result = append_inputs is result"

definition DAG_parse_inputs :: "inputs_arg \<Rightarrow> io list" where
  "DAG_parse_inputs inputs =
     (case inputs of
        InputsNone \<Rightarrow> []
      | InputsDict d \<Rightarrow> append_items d []
      | InputsList is \<Rightarrow> append_inputs is [])"

definition Workflow_parse_inputs :: "inputs_arg \<Rightarrow> io list" where
  "Workflow_parse_inputs inputs =
     (case inputs of
        InputsNone \<Rightarrow> []
      | InputsDict d \<Rightarrow> append_items d []
      | InputsList is \<Rightarrow> append_inputs is [])"

text \<open>
  The normaliser as the specification words it: a mapping expands into one value
  object per entry, typed entries pass through, in encounter order.
\<close>

definition entry_parameters :: "py_dict \<Rightarrow> io list" where
  "entry_parameters d = map (\<lambda>kv. IsParameter \<lparr>p_name = fst kv, p_value = snd kv\<rparr>) d"

fun item_values :: "input_item \<Rightarrow> io list" where
  "item_values (ItemParameter p) = [IsParameter p]"
| "item_values (ItemArtifact a) = [IsArtifact a]"
| "item_values (ItemDict d) = entry_parameters d"
| "item_values (ItemOther x) = []"

section \<open>Metrics normalisation (\<^verbatim>\<open>Workflow._parse_metrics\<close>)\<close>

record prometheus =
  prom_name :: string

record metrics =
  metrics_prometheus :: "prometheus list"

datatype metrics_item = ItemPrometheus prometheus | ItemNotPrometheus py_value

datatype metrics_arg =
  MetricsNone | MetricsOne prometheus | MetricsList "metrics_item list"
| MetricsWrapper metrics | MetricsOther py_value

fun is_Prometheus :: "metrics_item \<Rightarrow> bool" where
  "is_Prometheus (ItemPrometheus p) = True"
| "is_Prometheus (ItemNotPrometheus x) = False"

fun the_Prometheus :: "metrics_item \<Rightarrow> prometheus list" where
  "the_Prometheus (ItemPrometheus p) = [p]"
| "the_Prometheus (ItemNotPrometheus x) = []"

fun Workflow_parse_metrics :: "metrics_arg \<Rightarrow> error + metrics option" where
  "Workflow_parse_metrics MetricsNone = Inr None"
| "Workflow_parse_metrics (MetricsOne p) = Inr (Some \<lparr>metrics_prometheus = [p]\<rparr>)"
| "Workflow_parse_metrics (MetricsList ms) =
     (if list_all is_Prometheus ms
      then Inr (Some \<lparr>metrics_prometheus = concat (map the_Prometheus ms)\<rparr>)
      else Inl AssertionError)"
| "Workflow_parse_metrics (MetricsWrapper m) = Inr (Some m)"
| "Workflow_parse_metrics (MetricsOther x) = Inl ValueError"

section \<open>The object graph: tasks and DAGs on a heap\<close>

text \<open>
  Tasks and DAGs are Python objects: shared by reference and mutated in place
  (\<^verbatim>\<open>other.is_exit_task = True\<close>, \<^verbatim>\<open>self.tasks.append(t)\<close>).  The heap maps
  references to the objects' current attribute values.
\<close>

type_synonym task_ref = nat
type_synonym dag_ref = nat

record dag_task =
  dt_name :: string
  dt_template :: string
  dt_dependencies :: "string list"

record template =
  tmpl_name :: string
  tmpl_in_parameters :: "io list"
  tmpl_in_artifacts :: "io list"
  tmpl_out_parameters :: "io list"
  tmpl_out_artifacts :: "io list"
  tmpl_dag :: "dag_task list option"

record volume_claim =
  vc_name :: string
  vc_spec :: string

record volume =
  vol_name :: string
  vol_spec :: string

text \<open>
  Modelled from the spec: the class \<^verbatim>\<open>Task\<close> (\<^verbatim>\<open>hera.task\<close>) is not among the
  sources.  The specification lists what the compiler consumes from it: the attributes
  name, optional nested pipeline and exit-task flag, and operations producing its own
  template (or none), its dependency descriptor and its declared shared resources of
  both kinds.  The results of those operations are carried by the object.
\<close>

record task =
  t_name :: string
  t_dag :: "dag_ref option"
  is_exit_task :: bool
  t_template :: "template option"
  t_descriptor :: dag_task
  t_volume_claim_templates :: "volume_claim list"
  t_persistent_volume_claims :: "volume list"

text \<open>The attributes \<^verbatim>\<open>DAG.__init__\<close> sets; outputs and tasks may be \<^verbatim>\<open>None\<close>.\<close>

record dag =
  d_name :: string
  d_inputs :: "io list"
  d_outputs :: "io list option"
  d_tasks :: "task_ref list option"

text \<open>
  \<open>dag_context\<close> is the process-wide stack of open DAG scopes (top first);
  \<open>next_task\<close> and \<open>next_dag\<close> are the references the next constructed objects get.
\<close>

record heap =
  task_at :: "task_ref \<Rightarrow> task"
  dag_at :: "dag_ref \<Rightarrow> dag"
  next_task :: task_ref
  next_dag :: dag_ref
  dag_context :: "dag_ref list"

text \<open>
  Modelled from the spec: \<^verbatim>\<open>Task._build_template\<close> yields the task's own template or
  none; \<^verbatim>\<open>Task._build_dag_task\<close> yields its dependency descriptor, or none if it is an
  exit task; the two resource operations yield the declared lists.
\<close>

definition Task_build_template :: "task \<Rightarrow> template option" where
  "Task_build_template t = t_template t"

definition Task_build_dag_task :: "task \<Rightarrow> dag_task option" where
  "Task_build_dag_task t = (if is_exit_task t then None else Some (t_descriptor t))"

definition Task_build_volume_claim_templates :: "task \<Rightarrow> volume_claim list" where
  "Task_build_volume_claim_templates t = t_volume_claim_templates t"

definition Task_build_persistent_volume_claims :: "task \<Rightarrow> volume list" where
  "Task_build_persistent_volume_claims t = t_persistent_volume_claims t"

section \<open>The recursive compiler (\<^verbatim>\<open>hera.dag.DAG\<close>)\<close>

text \<open>
  A call either returns, raises, or never returns (a DAG nested inside itself).  The
  recursive operations take the depth of recursion they may use; \<open>None\<close> says it
  was not enough.
\<close>

type_synonym 'a outcome = "(error + 'a) option"

text \<open>A list comprehension over calls: the first call that does not return ends it.\<close>

fun collect :: "('a \<Rightarrow> 'b outcome) \<Rightarrow> 'a list \<Rightarrow> 'b list outcome" where
  "collect f [] = Some (Inr [])"
| "collect f (x # xs) =
     (case f x of
        None \<Rightarrow> None
      | Some (Inl e) \<Rightarrow> Some (Inl e)
      | Some (Inr y) \<Rightarrow>
          (case collect f xs of
             None \<Rightarrow> None
           | Some (Inl e) \<Rightarrow> Some (Inl e)
           | Some (Inr ys) \<Rightarrow> Some (Inr (y # ys))))"

text \<open>\<^verbatim>\<open>[t.dag for t in self.tasks if t.dag]\<close>\<close>

definition nested_dags :: "heap \<Rightarrow> task_ref list \<Rightarrow> dag_ref list" where
  "nested_dags h ts = List.map_filter (\<lambda>r. t_dag (task_at h r)) ts"

fun DAG_build_templates :: "nat \<Rightarrow> heap \<Rightarrow> dag_ref \<Rightarrow> template list outcome" where
  "DAG_build_templates 0 h d = None"
| "DAG_build_templates (Suc n) h d =
     (case d_tasks (dag_at h d) of
        None \<Rightarrow> Some (Inr [])
      | Some ts \<Rightarrow>
          (let templates = List.map_filter (\<lambda>r. Task_build_template (task_at h r)) ts in
           case collect (DAG_build_templates n h) (nested_dags h ts) of
             None \<Rightarrow> None
           | Some (Inl e) \<Rightarrow> Some (Inl e)
           | Some (Inr sub_templates) \<Rightarrow> Some (Inr (templates @ concat sub_templates))))"

definition DAG_build_dag_tasks :: "heap \<Rightarrow> dag_ref \<Rightarrow> dag_task list" where
  "DAG_build_dag_tasks h d =
     (case d_tasks (dag_at h d) of
        None \<Rightarrow> []
      | Some ts \<Rightarrow>
          List.map_filter (\<lambda>r. Task_build_dag_task (task_at h r))
            (filter (\<lambda>r. \<not> is_exit_task (task_at h r)) ts))"

text \<open>
  The name-keyed \<^verbatim>\<open>dict\<close> of the two resource collectors: an association list in
  insertion order; \<^verbatim>\<open>vcs[k] = v\<close> replaces the value of a present key in place and
  appends an absent one, which is \<^const>\<open>AList.update\<close>.
\<close>

fun store_all :: "('v \<Rightarrow> string) \<Rightarrow> 'v list \<Rightarrow> (string \<times> 'v) list \<Rightarrow> (string \<times> 'v) list" where
  "store_all key [] vcs = vcs"
| "store_all key (v # vs) vcs = store_all key vs (AList.update (key v) v vcs)"

fun store_lists :: "('v \<Rightarrow> string) \<Rightarrow> 'v list list \<Rightarrow> (string \<times> 'v) list \<Rightarrow> (string \<times> 'v) list" where
  "store_lists key [] vcs = vcs"
| "store_lists key (l # ls) vcs = store_lists key ls (store_all key l vcs)"

definition dict_values :: "(string \<times> 'v) list \<Rightarrow> 'v list" where
  "dict_values vcs = map snd vcs"

fun DAG_build_volume_claim_templates :: "nat \<Rightarrow> heap \<Rightarrow> dag_ref \<Rightarrow> volume_claim list outcome" where
  "DAG_build_volume_claim_templates 0 h d = None"
| "DAG_build_volume_claim_templates (Suc n) h d =
     (case d_tasks (dag_at h d) of
        None \<Rightarrow> Some (Inl TypeError)
      | Some ts \<Rightarrow>
          (let vcs = store_lists vc_name
                       (map (\<lambda>r. Task_build_volume_claim_templates (task_at h r)) ts) [] in
           case collect (DAG_build_volume_claim_templates n h) (nested_dags h ts) of
             None \<Rightarrow> None
           | Some (Inl e) \<Rightarrow> Some (Inl e)
           | Some (Inr sub_volume_claims) \<Rightarrow>
               Some (Inr (dict_values (store_lists vc_name sub_volume_claims vcs)))))"

fun DAG_build_persistent_volume_claims :: "nat \<Rightarrow> heap \<Rightarrow> dag_ref \<Rightarrow> volume list outcome" where
  "DAG_build_persistent_volume_claims 0 h d = None"
| "DAG_build_persistent_volume_claims (Suc n) h d =
     (case d_tasks (dag_at h d) of
        None \<Rightarrow> Some (Inl TypeError)
      | Some ts \<Rightarrow>
          (let pvcs = store_lists vol_name
                        (map (\<lambda>r. Task_build_persistent_volume_claims (task_at h r)) ts) [] in
           case collect (DAG_build_persistent_volume_claims n h) (nested_dags h ts) of
             None \<Rightarrow> None
           | Some (Inl e) \<Rightarrow> Some (Inl e)
           | Some (Inr sub_volume_claims) \<Rightarrow>
               Some (Inr (dict_values (store_lists vol_name sub_volume_claims pvcs)))))"

text \<open>
  The DAG's own template.  Its arguments are evaluated in order: iterating over
  \<^verbatim>\<open>self.outputs\<close> raises when it is \<^verbatim>\<open>None\<close>, before the task list is looked at.
\<close>

definition DAG_own_template :: "heap \<Rightarrow> dag_ref \<Rightarrow> io list \<Rightarrow> template" where
  "DAG_own_template h d outs =
     \<lparr>tmpl_name = d_name (dag_at h d),
      tmpl_in_parameters = filter is_Parameter (d_inputs (dag_at h d)),
      tmpl_in_artifacts = filter is_Artifact (d_inputs (dag_at h d)),
      tmpl_out_parameters = filter is_Parameter outs,
      tmpl_out_artifacts = filter is_Artifact outs,
      tmpl_dag = Some (DAG_build_dag_tasks h d)\<rparr>"

fun DAG_build :: "nat \<Rightarrow> heap \<Rightarrow> dag_ref \<Rightarrow> template list outcome" where
  "DAG_build 0 h d = None"
| "DAG_build (Suc n) h d =
     (case d_outputs (dag_at h d) of
        None \<Rightarrow> Some (Inl TypeError)
      | Some outs \<Rightarrow>
          (let dag = DAG_own_template h d outs in
           case d_tasks (dag_at h d) of
             None \<Rightarrow> Some (Inl TypeError)
           | Some ts \<Rightarrow>
               (case collect (DAG_build n h) (nested_dags h ts) of
                  None \<Rightarrow> None
                | Some (Inl e) \<Rightarrow> Some (Inl e)
                | Some (Inr sub_dags) \<Rightarrow> Some (Inr ([dag] @ concat sub_dags)))))"

text \<open>
  \<^verbatim>\<open>DAG.__init__\<close>; \<open>validate_name\<close> is the external name check.  The new object
  gets the next free reference.
\<close>

definition DAG_init ::
  "(string \<Rightarrow> bool) \<Rightarrow> string \<Rightarrow> inputs_arg \<Rightarrow> io list option \<Rightarrow> task_ref list option \<Rightarrow>
   heap \<Rightarrow> error + dag_ref \<times> heap" where
  "DAG_init validate_name name inputs outputs tasks h =
     (if \<not> validate_name name then Inl NamingFailure
      else
        let self = next_dag h in
        Inr (self,
             h\<lparr>dag_at := (dag_at h)(self :=
                   \<lparr>d_name = name, d_inputs = DAG_parse_inputs inputs,
                    d_outputs = outputs, d_tasks = tasks\<rparr>),
               next_dag := Suc self\<rparr>))"

text \<open>\<^verbatim>\<open>self.tasks.append(t)\<close>: \<^verbatim>\<open>None\<close> has no \<^verbatim>\<open>append\<close>.\<close>

definition DAG_add_task :: "dag_ref \<Rightarrow> task_ref \<Rightarrow> heap \<Rightarrow> error + heap" where
  "DAG_add_task self t h =
     (case d_tasks (dag_at h self) of
        None \<Rightarrow> Inl AttributeError
      | Some ts \<Rightarrow>
          Inr (h\<lparr>dag_at := (dag_at h)(self := (dag_at h self)\<lparr>d_tasks := Some (ts @ [t])\<rparr>)\<rparr>))"

text \<open>\<^verbatim>\<open>next((p for p in self.outputs if p.name == name), None) is None\<close>\<close>

definition reference_string :: "string \<Rightarrow> string \<Rightarrow> string" where
  "reference_string scope name = ''{{'' @ scope @ ''.parameters.'' @ name @ ''}}''"

definition DAG_get_parameter :: "heap \<Rightarrow> dag_ref \<Rightarrow> string \<Rightarrow> error + parameter" where
  "DAG_get_parameter h self name =
     (case d_outputs (dag_at h self) of
        None \<Rightarrow> Inl TypeError
      | Some outs \<Rightarrow>
          (case find (\<lambda>p. io_name p = name) outs of
             None \<Rightarrow> Inl KeyError
           | Some p \<Rightarrow> Inr \<lparr>p_name = name, p_value = PyStr (reference_string ''inputs'' name)\<rparr>))"

section \<open>The top-level assembler (\<^verbatim>\<open>hera.workflow.Workflow\<close>)\<close>

text \<open>
  The attributes the modelled operations read or write.  The remaining constructor
  arguments are scalar settings stored and passed on unchanged.  \<open>in_context\<close> is
  \<open>None\<close> while the attribute has never been assigned: only \<^verbatim>\<open>__enter__\<close> and
  \<^verbatim>\<open>__exit__\<close> assign it.
\<close>

record workflow =
  w_name :: "string option"
  w_generate_name :: "string option"
  w_dag :: dag_ref
  w_inputs :: "io list"
  w_outputs :: "io list"
  w_metrics :: "metrics option"
  w_on_exit :: "string option"  \<comment> \<open>the attribute \<^verbatim>\<open>on_exit_\<close>\<close>
  in_context :: "bool option"

record workflow_spec =
  spec_arguments_artifacts :: "io list"
  spec_arguments_parameters :: "io list"
  spec_entrypoint :: string
  spec_metrics :: "metrics option"
  spec_on_exit :: "string option"
  spec_templates :: "template list"
  spec_volume_claim_templates :: "volume_claim list"
  spec_volumes :: "volume list"

record model_workflow =
  mw_name :: "string option"
  mw_generate_name :: "string option"
  mw_spec :: workflow_spec

text \<open>\<^verbatim>\<open>str.rstrip(chars)\<close>\<close>

definition rstrip :: "string \<Rightarrow> string \<Rightarrow> string" where
  "rstrip chars s = rev (dropWhile (\<lambda>c. c \<in> set chars) (rev s))"

text \<open>
  \<^verbatim>\<open>Workflow.__init__\<close>.  \<open>validate_workflow_name\<close> and \<open>validate_name\<close> are the
  external name check as called with and without \<^verbatim>\<open>generate_name\<close>; it is taken
  to return the name it is given.  The post-init hooks of the external global
  configuration are taken to be none.
\<close>

definition Workflow_init ::
  "(string option \<Rightarrow> string option \<Rightarrow> bool) \<Rightarrow> (string \<Rightarrow> bool) \<Rightarrow>
   string option \<Rightarrow> string option \<Rightarrow> dag_ref option \<Rightarrow> string option \<Rightarrow>
   inputs_arg \<Rightarrow> io list option \<Rightarrow> metrics_arg \<Rightarrow> heap \<Rightarrow> error + workflow \<times> heap" where
  "Workflow_init validate_workflow_name validate_name name dag_name dag generate_name
     inputs outputs metrics h =
     (if \<not> validate_workflow_name name generate_name then Inl NamingFailure
      else
        case (case dag_name of
                None \<Rightarrow> (case name of None \<Rightarrow> Inl AttributeError
                                    | Some nm \<Rightarrow> Inr (rstrip ''-.'' nm))
              | Some dn \<Rightarrow> Inr dn) of
          Inl e \<Rightarrow> Inl e
        | Inr dag_name' \<Rightarrow>
            (case (case dag of
                     None \<Rightarrow> DAG_init validate_name dag_name' InputsNone None None h
                   | Some d \<Rightarrow> Inr (d, h)) of
               Inl e \<Rightarrow> Inl e
             | Inr (d, h') \<Rightarrow>
                 (case Workflow_parse_metrics metrics of
                    Inl e \<Rightarrow> Inl e
                  | Inr m \<Rightarrow>
                      Inr (\<lparr>w_name = name, w_generate_name = generate_name, w_dag = d,
                            w_inputs = Workflow_parse_inputs inputs,
                            w_outputs = (case outputs of None \<Rightarrow> [] | Some os \<Rightarrow> os),
                            w_metrics = m, w_on_exit = None, in_context = None\<rparr>, h'))))"

text \<open>
  \<^verbatim>\<open>Workflow._build_spec\<close>: the keyword arguments are evaluated in the order written,
  so the first call that raises decides.
\<close>

definition Workflow_build_spec :: "nat \<Rightarrow> heap \<Rightarrow> workflow \<Rightarrow> workflow_spec outcome" where
  "Workflow_build_spec n h self =
     (case DAG_build_templates n h (w_dag self) of
        None \<Rightarrow> None
      | Some (Inl e) \<Rightarrow> Some (Inl e)
      | Some (Inr task_templates) \<Rightarrow>
     (case DAG_build n h (w_dag self) of
        None \<Rightarrow> None
      | Some (Inl e) \<Rightarrow> Some (Inl e)
      | Some (Inr dag_templates) \<Rightarrow>
     (case DAG_build_volume_claim_templates n h (w_dag self) of
        None \<Rightarrow> None
      | Some (Inl e) \<Rightarrow> Some (Inl e)
      | Some (Inr vcs) \<Rightarrow>
     (case DAG_build_persistent_volume_claims n h (w_dag self) of
        None \<Rightarrow> None
      | Some (Inl e) \<Rightarrow> Some (Inl e)
      | Some (Inr pvcs) \<Rightarrow>
          Some (Inr \<lparr>spec_arguments_artifacts = filter is_Artifact (w_inputs self),
                     spec_arguments_parameters = filter is_Parameter (w_inputs self),
                     spec_entrypoint = d_name (dag_at h (w_dag self)),
                     spec_metrics = w_metrics self,
                     spec_on_exit = w_on_exit self,
                     spec_templates = task_templates @ dag_templates,
                     spec_volume_claim_templates = vcs,
                     spec_volumes = pvcs\<rparr>)))))"

definition Workflow_build :: "nat \<Rightarrow> heap \<Rightarrow> workflow \<Rightarrow> model_workflow outcome" where
  "Workflow_build n h self =
     (case Workflow_build_spec n h self of
        None \<Rightarrow> None
      | Some (Inl e) \<Rightarrow> Some (Inl e)
      | Some (Inr spec) \<Rightarrow>
          Some (Inr \<lparr>mw_name = w_name self, mw_generate_name = w_generate_name self,
                     mw_spec = spec\<rparr>))"

text \<open>
  Modelled from the spec: the context registration stack (\<^verbatim>\<open>hera.dag_context\<close>) is
  not among the sources.  Entering a scope pushes the pipeline, leaving pops it.
\<close>

definition dag_context_enter :: "dag_ref \<Rightarrow> heap \<Rightarrow> heap" where
  "dag_context_enter d h = h\<lparr>dag_context := d # dag_context h\<rparr>"

definition dag_context_exit :: "heap \<Rightarrow> heap" where
  "dag_context_exit h = h\<lparr>dag_context := tl (dag_context h)\<rparr>"

definition Workflow_enter :: "workflow \<Rightarrow> heap \<Rightarrow> workflow \<times> heap" where
  "Workflow_enter self h = (self\<lparr>in_context := Some True\<rparr>, dag_context_enter (w_dag self) h)"

definition Workflow_exit :: "workflow \<Rightarrow> heap \<Rightarrow> workflow \<times> heap" where
  "Workflow_exit self h = (self\<lparr>in_context := Some False\<rparr>, dag_context_exit h)"

text \<open>
  Modelled from the spec: the constructor of \<^verbatim>\<open>Task\<close> is not among the sources.  A
  unit of work constructed while the stack is non-empty is added to the pipeline on
  top.  \<open>ext\<close> carries what the new task's own build operations will yield.
\<close>

definition Task_init :: "string \<Rightarrow> dag_ref option \<Rightarrow> task \<Rightarrow> heap \<Rightarrow> error + task_ref \<times> heap" where
  "Task_init name dag ext h =
     (let self = next_task h;
          h1 = h\<lparr>task_at := (task_at h)(self :=
                    ext\<lparr>t_name := name, t_dag := dag, is_exit_task := False\<rparr>),
                 next_task := Suc self\<rparr>
      in case dag_context h1 of
           [] \<Rightarrow> Inr (self, h1)
         | current # below \<Rightarrow>
             (case DAG_add_task current self h1 of
                Inl e \<Rightarrow> Inl e
              | Inr h2 \<Rightarrow> Inr (self, h2)))"

datatype exit_arg = ExitTask task_ref | ExitDAG dag_ref | ExitOther py_value

definition set_exit_task :: "task_ref \<Rightarrow> heap \<Rightarrow> heap" where
  "set_exit_task t h = h\<lparr>task_at := (task_at h)(t := (task_at h t)\<lparr>is_exit_task := True\<rparr>)\<rparr>"

definition Workflow_on_exit :: "task \<Rightarrow> workflow \<Rightarrow> exit_arg \<Rightarrow> heap \<Rightarrow> error + workflow \<times> heap" where
  "Workflow_on_exit ext self other h =
     (case other of
        ExitTask t \<Rightarrow>
          Inr (self\<lparr>w_on_exit := Some (t_name (task_at h t))\<rparr>, set_exit_task t h)
      | ExitDAG d \<Rightarrow>
          (case Task_init ''temp-name-for-hera-exit-dag'' (Some d) ext h of
             Inl e \<Rightarrow> Inl e
           | Inr (t, h1) \<Rightarrow>
               (let h2 = set_exit_task t h1
                in Inr (self\<lparr>w_on_exit := Some (d_name (dag_at h2 d))\<rparr>, h2)))
      | ExitOther x \<Rightarrow> Inl ValueError)"

definition Workflow_get_parameter :: "workflow \<Rightarrow> string \<Rightarrow> error + parameter" where
  "Workflow_get_parameter self name =
     (let parameters = filter is_Parameter (w_inputs self)
      in case find (\<lambda>p. io_name p = name) parameters of
           None \<Rightarrow> Inl KeyError
         | Some p \<Rightarrow> Inr \<lparr>p_name = name, p_value = PyStr (reference_string ''workflow'' name)\<rparr>)"

text \<open>
  \<^verbatim>\<open>Workflow.create\<close>.  Reading \<^verbatim>\<open>self.in_context\<close> raises when the attribute was
  never assigned.  The value returned is the built workflow handed to the external
  service's \<^verbatim>\<open>create_workflow\<close>; what the service answers is outside the model.
\<close>

definition Workflow_create :: "nat \<Rightarrow> heap \<Rightarrow> workflow \<Rightarrow> model_workflow outcome" where
  "Workflow_create n h self =
     (case in_context self of
        None \<Rightarrow> Some (Inl AttributeError)
      | Some True \<Rightarrow> Some (Inl ValueError)
      | Some False \<Rightarrow> Workflow_build n h self)"

section \<open>Concrete object graphs\<close>

text \<open>
  A heap before any object is constructed, with no scope open.  Unallocated references
  hold placeholder objects.
\<close>

definition blank_task :: task where
  "blank_task =
     \<lparr>t_name = [], t_dag = None, is_exit_task = False, t_template = None,
      t_descriptor = \<lparr>dt_name = [], dt_template = [], dt_dependencies = []\<rparr>,
      t_volume_claim_templates = [], t_persistent_volume_claims = []\<rparr>"

definition blank_dag :: dag where
  "blank_dag = \<lparr>d_name = [], d_inputs = [], d_outputs = None, d_tasks = None\<rparr>"

definition initial_heap :: heap where
  "initial_heap =
     \<lparr>task_at = (\<lambda>r. blank_task), dag_at = (\<lambda>r. blank_dag),
      next_task = 0, next_dag = 0, dag_context = []\<rparr>"

definition any_name :: "string \<Rightarrow> bool" where
  "any_name name = True"

definition any_workflow_name :: "string option \<Rightarrow> string option \<Rightarrow> bool" where
  "any_workflow_name name generate_name = True"

definition heap_with_dag :: "dag \<Rightarrow> heap" where
  "heap_with_dag g = initial_heap\<lparr>dag_at := (dag_at initial_heap)(0 := g), next_dag := Suc 0\<rparr>"

text \<open>\<^verbatim>\<open>DAG("d")\<close> and \<^verbatim>\<open>DAG("d", outputs=[], tasks=[])\<close> as first object.\<close>

definition default_dag :: dag where
  "default_dag = \<lparr>d_name = ''d'', d_inputs = [], d_outputs = None, d_tasks = None\<rparr>"

definition empty_dag :: dag where
  "empty_dag = \<lparr>d_name = ''d'', d_inputs = [], d_outputs = Some [], d_tasks = Some []\<rparr>"

text \<open>The tasks a DAG owns, none when the attribute is \<^verbatim>\<open>None\<close>.\<close>

definition owned_tasks :: "heap \<Rightarrow> dag_ref \<Rightarrow> task_ref list" where
  "owned_tasks h d = (case d_tasks (dag_at h d) of None \<Rightarrow> [] | Some ts \<Rightarrow> ts)"

text \<open>
  Three levels: DAG \<open>a\<close> (reference 0) owns task \<open>t1\<close> whose dag is \<open>b\<close> (1), which
  owns task \<open>t2\<close> whose dag is \<open>c\<close> (2), which owns the tasks \<open>leaves\<close>.  All
  three DAGs have \<open>outs\<close> as outputs.
\<close>

definition chain_heap :: "io list option \<Rightarrow> task_ref list \<Rightarrow> heap" where
  "chain_heap outs leaves =
     \<lparr>task_at = (\<lambda>r. blank_task)
        (0 := blank_task\<lparr>t_name := ''t1'', t_dag := Some 1\<rparr>,
         1 := blank_task\<lparr>t_name := ''t2'', t_dag := Some 2\<rparr>,
         2 := blank_task\<lparr>t_name := ''leaf'',
                t_template := Some \<lparr>tmpl_name = ''leaf'', tmpl_in_parameters = [],
                  tmpl_in_artifacts = [], tmpl_out_parameters = [], tmpl_out_artifacts = [],
                  tmpl_dag = None\<rparr>\<rparr>),
      dag_at = (\<lambda>r. blank_dag)
        (0 := \<lparr>d_name = ''a'', d_inputs = [], d_outputs = outs, d_tasks = Some [0]\<rparr>,
         1 := \<lparr>d_name = ''b'', d_inputs = [], d_outputs = outs, d_tasks = Some [1]\<rparr>,
         2 := \<lparr>d_name = ''c'', d_inputs = [], d_outputs = outs, d_tasks = Some leaves\<rparr>),
      next_task = 3, next_dag = 3, dag_context = []\<rparr>"

definition chain_workflow :: workflow where
  "chain_workflow =
     \<lparr>w_name = Some ''w'', w_generate_name = None, w_dag = 0, w_inputs = [], w_outputs = [],
      w_metrics = None, w_on_exit = None, in_context = None\<rparr>"

section \<open>The traversal the specification names\<close>


text \<open>
  The DAG tree below \<open>d\<close> is less than \<open>n\<close> levels deep and each of its DAGs has a
  task list.
\<close>

fun tasks_present :: "nat \<Rightarrow> heap \<Rightarrow> dag_ref \<Rightarrow> bool" where
  "tasks_present 0 h d = False"
| "tasks_present (Suc n) h d =
     (case d_tasks (dag_at h d) of
        None \<Rightarrow> False
      | Some ts \<Rightarrow> list_all (tasks_present n h) (nested_dags h ts))"






section \<open>Properties of the normalisers\<close>

lemma append_items_eq: "append_items d result = result @ entry_parameters d"
  by (induction d result rule: append_items.induct) (simp_all add: entry_parameters_def)

lemma append_inputs_eq: "append_inputs is result = result @ concat (map item_values is)"
  by (induction "is" result rule: append_inputs.induct) (simp_all add: append_items_eq)

text \<open>
  \<^bold>\<open>Claim C3.\<close>  Both input normalisers map \<^verbatim>\<open>None\<close> to the empty list, a single
  dict to one Parameter per entry (key as name, value as value) in the dict's order,
  and a list to the concatenation, in order, of what each element gives: a Parameter
  or Artifact itself, a dict its entries as Parameters.  Nothing is merged: the result
  has as many elements as there are entries.
\<close>

theorem parse_inputs_normalises:
  "DAG_parse_inputs InputsNone = [] \<and> Workflow_parse_inputs InputsNone = [] \<and>
   DAG_parse_inputs (InputsDict d) =
     map (\<lambda>kv. IsParameter \<lparr>p_name = fst kv, p_value = snd kv\<rparr>) d \<and>
   Workflow_parse_inputs (InputsDict d) =
     map (\<lambda>kv. IsParameter \<lparr>p_name = fst kv, p_value = snd kv\<rparr>) d \<and>
   DAG_parse_inputs (InputsList xs) = concat (map item_values xs) \<and>
   Workflow_parse_inputs (InputsList xs) = concat (map item_values xs) \<and>
   length (DAG_parse_inputs (InputsDict d)) = length d \<and>
   length (DAG_parse_inputs (InputsList xs)) = sum_list (map (length \<circ> item_values) xs)"
  by (simp add: DAG_parse_inputs_def Workflow_parse_inputs_def append_items_eq append_inputs_eq
      entry_parameters_def length_concat comp_def)

lemma parse_inputs_example:
  "DAG_parse_inputs (InputsDict [(''a'', PyInt 1), (''b'', PyInt 2)]) =
     [IsParameter \<lparr>p_name = ''a'', p_value = PyInt 1\<rparr>,
      IsParameter \<lparr>p_name = ''b'', p_value = PyInt 2\<rparr>]"
  by (simp add: DAG_parse_inputs_def)

lemma parse_inputs_keeps_duplicates:
  "map io_name (Workflow_parse_inputs (InputsList
      [ItemDict [(''a'', PyInt 1)], ItemParameter \<lparr>p_name = ''a'', p_value = PyInt 2\<rparr>])) =
     [''a'', ''a'']"
  by (simp add: Workflow_parse_inputs_def)

section \<open>Properties of the metrics normaliser\<close>

lemma prometheus_items:
  "list_all is_Prometheus (map ItemPrometheus ps) \<and>
   concat (map the_Prometheus (map ItemPrometheus ps)) = ps"
  by (induction ps) simp_all

text \<open>
  \<^bold>\<open>Claim C8.\<close>  \<^verbatim>\<open>None\<close> stays \<^verbatim>\<open>None\<close>; one Prometheus entry, a list of
  Prometheus entries and a Metrics wrapper each become a Metrics wrapper holding those
  entries; every other input raises: \<^verbatim>\<open>ValueError\<close> for a value of another type,
  \<^verbatim>\<open>AssertionError\<close> for a list with an element that is not a Prometheus entry.
\<close>

theorem parse_metrics_normalises:
  "Workflow_parse_metrics MetricsNone = Inr None \<and>
   Workflow_parse_metrics (MetricsOne p) = Inr (Some \<lparr>metrics_prometheus = [p]\<rparr>) \<and>
   Workflow_parse_metrics (MetricsList (map ItemPrometheus ps)) =
     Inr (Some \<lparr>metrics_prometheus = ps\<rparr>) \<and>
   Workflow_parse_metrics (MetricsWrapper m) = Inr (Some m) \<and>
   Workflow_parse_metrics (MetricsOther x) = Inl ValueError \<and>
   (\<not> list_all is_Prometheus ms \<longrightarrow>
      Workflow_parse_metrics (MetricsList ms) = Inl AssertionError)"
  using prometheus_items [of ps] by (simp del: map_map list.map_comp)

theorem parse_metrics_witness:
  "\<not> list_all is_Prometheus
       [ItemPrometheus \<lparr>prom_name = ''latency''\<rparr>, ItemNotPrometheus (PyInt 3)] \<and>
   Workflow_parse_metrics
       (MetricsList [ItemPrometheus \<lparr>prom_name = ''latency''\<rparr>, ItemNotPrometheus (PyInt 3)])
     = Inl AssertionError"
  using parse_metrics_normalises [of undefined "[]" undefined undefined
      "[ItemPrometheus \<lparr>prom_name = ''latency''\<rparr>, ItemNotPrometheus (PyInt 3)]"]
  by simp

section \<open>Absent collections\<close>

lemma nested_dags_Nil [simp]: "nested_dags h [] = []"
  by (simp add: nested_dags_def List.map_filter_simps)

lemma DAG_init_default: "DAG_init any_name ''d'' InputsNone None None initial_heap =
    Inr (0, heap_with_dag default_dag)"
  by (simp add: DAG_init_def any_name_def initial_heap_def heap_with_dag_def default_dag_def
      DAG_parse_inputs_def)

lemma DAG_init_empty: "DAG_init any_name ''d'' InputsNone (Some []) (Some []) initial_heap =
    Inr (0, heap_with_dag empty_dag)"
  by (simp add: DAG_init_def any_name_def initial_heap_def heap_with_dag_def empty_dag_def
      DAG_parse_inputs_def)

lemma empty_DAG_with_lists:
  assumes "d_tasks (dag_at h d) = Some []" "d_outputs (dag_at h d) = Some outs"
  shows "DAG_build (Suc n) h d = Some (Inr [DAG_own_template h d outs])"
    and "tmpl_dag (DAG_own_template h d outs) = Some []"
    and "DAG_build_volume_claim_templates (Suc n) h d = Some (Inr [])"
    and "DAG_build_persistent_volume_claims (Suc n) h d = Some (Inr [])"
  using assms
  by (simp_all add: DAG_own_template_def DAG_build_dag_tasks_def List.map_filter_simps
      dict_values_def)

lemma DAG_build_returns_lists:
  "DAG_build m h d = Some (Inr ts) \<Longrightarrow>
     (\<exists>outs tl. d_outputs (dag_at h d) = Some outs \<and> d_tasks (dag_at h d) = Some tl)"
  by (cases m) (auto split: option.splits)

text \<open>
  \<^bold>\<open>Claim C10.\<close>  A DAG constructed with outputs and tasks left at \<^verbatim>\<open>None\<close> keeps
  them \<^verbatim>\<open>None\<close>: adding a task raises \<^verbatim>\<open>AttributeError\<close> and building raises
  \<^verbatim>\<open>TypeError\<close>.  Whenever a build returns, the DAG's outputs and tasks are lists;
  and a DAG whose tasks are the empty list and whose outputs are a list builds to its
  one template with an empty task list and to empty resource collections.
\<close>

theorem DAG_without_lists_fails:
  assumes "DAG_init validate_name name inputs None None h = Inr (d, h')"
  shows "DAG_add_task d t h' = Inl AttributeError \<and>
         DAG_build (Suc n) h' d = Some (Inl TypeError) \<and>
         (DAG_build m h2 d2 = Some (Inr ts) \<longrightarrow>
            (\<exists>outs tl. d_outputs (dag_at h2 d2) = Some outs \<and> d_tasks (dag_at h2 d2) = Some tl)) \<and>
         (d_tasks (dag_at h3 d3) = Some [] \<and> d_outputs (dag_at h3 d3) = Some outs3 \<longrightarrow>
            DAG_build (Suc n) h3 d3 = Some (Inr [DAG_own_template h3 d3 outs3]) \<and>
            tmpl_dag (DAG_own_template h3 d3 outs3) = Some [] \<and>
            DAG_build_volume_claim_templates (Suc n) h3 d3 = Some (Inr []) \<and>
            DAG_build_persistent_volume_claims (Suc n) h3 d3 = Some (Inr []))"
proof -
  from assms have none: "d_tasks (dag_at h' d) = None" "d_outputs (dag_at h' d) = None"
    by (auto simp: DAG_init_def Let_def split: if_splits)
  have "DAG_add_task d t h' = Inl AttributeError"
    using none by (simp add: DAG_add_task_def)
  moreover have "DAG_build (Suc n) h' d = Some (Inl TypeError)"
    using none by simp
  ultimately show ?thesis
    using DAG_build_returns_lists empty_DAG_with_lists by blast
qed

theorem DAG_without_lists_fails_witness:
  "DAG_init any_name ''d'' InputsNone None None initial_heap = Inr (0, heap_with_dag default_dag) \<and>
   DAG_add_task 0 5 (heap_with_dag default_dag) = Inl AttributeError \<and>
   DAG_build (Suc 0) (heap_with_dag default_dag) 0 = Some (Inl TypeError) \<and>
   DAG_build (Suc 0) (heap_with_dag empty_dag) 0 =
     Some (Inr [DAG_own_template (heap_with_dag empty_dag) 0 []]) \<and>
   d_outputs (dag_at (heap_with_dag empty_dag) 0) = Some [] \<and>
   d_tasks (dag_at (heap_with_dag empty_dag) 0) = Some [] \<and>
   DAG_build_volume_claim_templates (Suc 0) (heap_with_dag empty_dag) 0 = Some (Inr [])"
  using DAG_without_lists_fails [OF DAG_init_default, of 5 0 "Suc 0" "heap_with_dag empty_dag" 0
      "[DAG_own_template (heap_with_dag empty_dag) 0 []]" "heap_with_dag empty_dag" 0 "[]"]
    DAG_init_default
  by (simp add: heap_with_dag_def empty_dag_def)

text \<open>
  \<^bold>\<open>Claim C7.\<close>  The claim promises that every pipeline without units of work
  compiles.  The pipeline \<^verbatim>\<open>DAG("d")\<close> owns no unit of work, and all three of its
  build operations raise \<^verbatim>\<open>TypeError\<close>, whatever recursion depth is allowed.
\<close>

theorem empty_default_DAG_build_raises:
  "DAG_init any_name ''d'' InputsNone None None initial_heap = Inr (0, heap_with_dag default_dag) \<and>
   d_tasks (dag_at (heap_with_dag default_dag) 0) = None \<and>
   DAG_build (Suc n) (heap_with_dag default_dag) 0 = Some (Inl TypeError) \<and>
   DAG_build_volume_claim_templates (Suc n) (heap_with_dag default_dag) 0 = Some (Inl TypeError) \<and>
   DAG_build_persistent_volume_claims (Suc n) (heap_with_dag default_dag) 0 = Some (Inl TypeError)"
  by (simp add: DAG_init_default) (simp add: heap_with_dag_def default_dag_def)

section \<open>Back-references\<close>

lemma find_io_name: "(find (\<lambda>p. io_name p = name) outs = None) = (name \<notin> io_name ` set outs)"
  by (auto simp: find_None_iff)

lemma find_io_name_Some:
  "find (\<lambda>p. io_name p = name) outs = Some x \<Longrightarrow> name \<in> io_name ` set outs"
  using find_io_name [of name outs] by auto

lemma DAG_get_parameter_declared:
  "d_outputs (dag_at h d) = Some outs \<Longrightarrow>
   (DAG_get_parameter h d name = Inl KeyError \<longleftrightarrow> name \<notin> io_name ` set outs) \<and>
   (name \<in> io_name ` set outs \<longrightarrow>
      DAG_get_parameter h d name =
        Inr \<lparr>p_name = name, p_value = PyStr (''{{inputs.parameters.'' @ name @ ''}}'')\<rparr>)"
  by (auto simp: DAG_get_parameter_def reference_string_def find_io_name split: option.splits
      dest: find_io_name_Some)

lemma Workflow_get_parameter_declared:
  "(Workflow_get_parameter w name = Inl KeyError \<longleftrightarrow>
      name \<notin> io_name ` set (filter is_Parameter (w_inputs w))) \<and>
   (name \<in> io_name ` set (filter is_Parameter (w_inputs w)) \<longrightarrow>
      Workflow_get_parameter w name =
        Inr \<lparr>p_name = name, p_value = PyStr (''{{workflow.parameters.'' @ name @ ''}}'')\<rparr>)"
  by (auto simp: Workflow_get_parameter_def reference_string_def find_io_name Let_def
      split: option.splits dest: find_io_name_Some)

text \<open>
  \<^bold>\<open>Claim C6.\<close>  The claim promises a lookup failure exactly when the name is not
  declared.  \<^verbatim>\<open>DAG("d")\<close> declares no output, and resolving any name on it raises
  \<^verbatim>\<open>TypeError\<close>, not \<^verbatim>\<open>KeyError\<close>.
\<close>

theorem DAG_get_parameter_default_outputs:
  "DAG_init any_name ''d'' InputsNone None None initial_heap = Inr (0, heap_with_dag default_dag) \<and>
   DAG_get_parameter (heap_with_dag default_dag) 0 ''x'' = Inl TypeError"
  by (simp add: DAG_init_default) (simp add: heap_with_dag_def default_dag_def DAG_get_parameter_def)

section \<open>Submitting\<close>

lemma create_in_scope:
  "Workflow_create n h' (fst (Workflow_enter w h)) = Some (Inl ValueError)"
  by (simp add: Workflow_enter_def Workflow_create_def)

lemma create_after_scope:
  "Workflow_create n h' (fst (Workflow_exit (fst (Workflow_enter w h)) h1)) =
     Workflow_build n h' (fst (Workflow_exit (fst (Workflow_enter w h)) h1))"
  by (simp add: Workflow_enter_def Workflow_exit_def Workflow_create_def)

lemma create_after_init:
  assumes "Workflow_init validate_workflow_name validate_name name dag_name dag generate_name
             inputs outputs metrics h = Inr (w, h')"
  shows "in_context w = None" and "Workflow_create n h'' w = Some (Inl AttributeError)"
proof -
  show "in_context w = None"
    using assms
    by (auto simp: Workflow_init_def split: if_splits sum.splits option.splits prod.splits)
  then show "Workflow_create n h'' w = Some (Inl AttributeError)"
    by (simp add: Workflow_create_def)
qed

text \<open>
  \<^bold>\<open>Claim C9.\<close>  The claim promises that outside an open scope \<^verbatim>\<open>create\<close> builds
  and submits.  A workflow that was constructed and never entered is outside every
  scope, and \<^verbatim>\<open>create\<close> raises \<^verbatim>\<open>AttributeError\<close> on it: the constructor does not
  assign \<^verbatim>\<open>in_context\<close>.
\<close>

theorem create_never_entered:
  "case Workflow_init any_workflow_name any_name (Some ''w'') (Some ''hera-dag'') None None
          InputsNone None MetricsNone initial_heap of
     Inl e \<Rightarrow> False
   | Inr (w, h) \<Rightarrow>
       in_context w = None \<and> dag_context h = [] \<and>
       Workflow_create n h w = Some (Inl AttributeError)"
  by (simp add: Workflow_init_def DAG_init_def any_name_def any_workflow_name_def
      initial_heap_def Let_def Workflow_create_def)

section \<open>Exit hooks\<close>

lemma build_dag_tasks_eq:
  "DAG_build_dag_tasks h d =
     map (\<lambda>r. t_descriptor (task_at h r)) (filter (\<lambda>r. \<not> is_exit_task (task_at h r)) (owned_tasks h d))"
proof -
  have "List.map_filter (\<lambda>r. Task_build_dag_task (task_at h r))
          (filter (\<lambda>r. \<not> is_exit_task (task_at h r)) ts) =
        map (\<lambda>r. t_descriptor (task_at h r)) (filter (\<lambda>r. \<not> is_exit_task (task_at h r)) ts)" for ts
    by (induction ts) (simp_all add: List.map_filter_simps Task_build_dag_task_def)
  then show ?thesis
    by (simp add: DAG_build_dag_tasks_def owned_tasks_def split: option.splits)
qed

text \<open>
  \<^bold>\<open>Claim C5.\<close>  Registering a task as exit hook always returns.  Afterwards the hook
  target is the task's name and the task's exit flag is set; no DAG loses or gains a
  task; and the dependency descriptors any DAG compiles to are those of its tasks that
  are not exit tasks, the registered task not among them: exactly the tasks other than
  it that were not exit tasks before.
\<close>

theorem on_exit_task:
  "\<exists>w' h'. Workflow_on_exit ext w (ExitTask t) h = Inr (w', h') \<and>
      w_on_exit w' = Some (t_name (task_at h t)) \<and>
      t_name (task_at h' t) = t_name (task_at h t) \<and>
      is_exit_task (task_at h' t) \<and>
      (\<forall>d. owned_tasks h' d = owned_tasks h d \<and>
           DAG_build_dag_tasks h' d =
             map (\<lambda>r. t_descriptor (task_at h' r))
               (filter (\<lambda>r. \<not> is_exit_task (task_at h' r)) (owned_tasks h' d)) \<and>
           t \<notin> set (filter (\<lambda>r. \<not> is_exit_task (task_at h' r)) (owned_tasks h' d)) \<and>
           filter (\<lambda>r. \<not> is_exit_task (task_at h' r)) (owned_tasks h' d) =
             filter (\<lambda>r. r \<noteq> t \<and> \<not> is_exit_task (task_at h r)) (owned_tasks h d))"
proof -
  have 1: "owned_tasks (set_exit_task t h) d = owned_tasks h d" for d
    by (simp add: owned_tasks_def set_exit_task_def)
  have 2: "filter (\<lambda>r. \<not> is_exit_task (task_at (set_exit_task t h) r)) ts =
           filter (\<lambda>r. r \<noteq> t \<and> \<not> is_exit_task (task_at h r)) ts" for ts
    by (rule filter_cong) (auto simp: set_exit_task_def)
  show ?thesis
    unfolding Workflow_on_exit_def
    by (simp add: build_dag_tasks_eq 1 2) (simp add: set_exit_task_def)
qed

section \<open>Three nested levels\<close>

lemma nested_dags_single:
  "nested_dags h [t] = (case t_dag (task_at h t) of None \<Rightarrow> [] | Some d \<Rightarrow> [d])"
  by (simp add: nested_dags_def List.map_filter_simps split: option.splits)

lemma three_level_task_templates:
  assumes "d_tasks (dag_at h d1) = Some [t1]" "t_dag (task_at h t1) = Some d2"
    and "d_tasks (dag_at h d2) = Some [t2]" "t_dag (task_at h t2) = Some d3"
    and "d_tasks (dag_at h d3) = Some leaves" "nested_dags h leaves = []"
  shows "DAG_build_templates (Suc (Suc (Suc n))) h d1 =
           Some (Inr (List.map_filter (\<lambda>r. Task_build_template (task_at h r)) ([t1, t2] @ leaves)))"
proof -
  have 3: "DAG_build_templates (Suc n) h d3 =
      Some (Inr (List.map_filter (\<lambda>r. Task_build_template (task_at h r)) leaves))"
    using assms by simp
  have 2: "DAG_build_templates (Suc (Suc n)) h d2 =
      Some (Inr (List.map_filter (\<lambda>r. Task_build_template (task_at h r)) (t2 # leaves)))"
    using assms 3 by (simp add: nested_dags_single List.map_filter_simps del: DAG_build_templates.simps(2)
        add: DAG_build_templates.simps(2)[of "Suc n"] split: option.splits)
  show ?thesis
    using assms 2 by (simp add: nested_dags_single List.map_filter_simps del: DAG_build_templates.simps(2)
        add: DAG_build_templates.simps(2)[of "Suc (Suc n)"] split: option.splits)
qed

lemma three_level_dag_templates:
  assumes "d_tasks (dag_at h d1) = Some [t1]" "t_dag (task_at h t1) = Some d2"
    and "d_tasks (dag_at h d2) = Some [t2]" "t_dag (task_at h t2) = Some d3"
    and "d_tasks (dag_at h d3) = Some leaves" "nested_dags h leaves = []"
    and "d_outputs (dag_at h d1) = Some o1" "d_outputs (dag_at h d2) = Some o2"
        "d_outputs (dag_at h d3) = Some o3"
  shows "DAG_build (Suc (Suc (Suc n))) h d1 =
           Some (Inr [DAG_own_template h d1 o1, DAG_own_template h d2 o2, DAG_own_template h d3 o3])"
proof -
  have 3: "DAG_build (Suc n) h d3 = Some (Inr [DAG_own_template h d3 o3])"
    using assms by simp
  have 2: "DAG_build (Suc (Suc n)) h d2 = Some (Inr [DAG_own_template h d2 o2, DAG_own_template h d3 o3])"
    using assms 3 by (simp add: nested_dags_single del: DAG_build.simps(2) add: DAG_build.simps(2)[of "Suc n"])
  show ?thesis
    using assms 2 by (simp add: nested_dags_single del: DAG_build.simps(2) add: DAG_build.simps(2)[of "Suc (Suc n)"])
qed

lemma chain_heap_shape:
  "d_tasks (dag_at (chain_heap outs leaves) 0) = Some [0]"
  "t_dag (task_at (chain_heap outs leaves) 0) = Some (Suc 0)"
  "d_tasks (dag_at (chain_heap outs leaves) (Suc 0)) = Some [Suc 0]"
  "t_dag (task_at (chain_heap outs leaves) (Suc 0)) = Some 2"
  "d_tasks (dag_at (chain_heap outs leaves) 2) = Some leaves"
  "d_outputs (dag_at (chain_heap outs leaves) 0) = outs"
  "d_outputs (dag_at (chain_heap outs leaves) (Suc 0)) = outs"
  "d_outputs (dag_at (chain_heap outs leaves) 2) = outs"
  "d_name (dag_at (chain_heap outs leaves) 0) = ''a''"
  "d_name (dag_at (chain_heap outs leaves) (Suc 0)) = ''b''"
  "d_name (dag_at (chain_heap outs leaves) 2) = ''c''"
  "t_template (task_at (chain_heap outs leaves) 0) = None"
  "t_template (task_at (chain_heap outs leaves) (Suc 0)) = None"
  "t_dag (task_at (chain_heap outs leaves) 2) = None"
  "t_template (task_at (chain_heap outs leaves) 2) \<noteq> None"
  "w_dag chain_workflow = 0"
  by (simp_all add: chain_heap_def chain_workflow_def blank_task_def)

lemma chain_task_templates:
  "DAG_build_templates (Suc (Suc (Suc n))) (chain_heap outs []) 0 = Some (Inr [])"
proof -
  have "DAG_build_templates (Suc (Suc (Suc n))) (chain_heap outs []) 0 =
      Some (Inr (List.map_filter (\<lambda>r. Task_build_template (task_at (chain_heap outs []) r))
         [0, Suc 0]))"
    by (rule three_level_task_templates [where ?t1.0 = 0 and ?d2.0 = "Suc 0" and ?t2.0 = "Suc 0"
          and ?d3.0 = 2 and leaves = "[]", simplified append_Nil2])
      (simp_all add: chain_heap_shape)
  then show ?thesis
    by (simp add: chain_heap_shape List.map_filter_simps Task_build_template_def
        del: DAG_build_templates.simps)
qed

text \<open>
  \<^bold>\<open>Claim C1.\<close>  The claim promises three templates for every three-level nesting.
  The nesting \<^verbatim>\<open>DAG("a", tasks=[Task("t1", dag=DAG("b", tasks=[Task("t2",
  dag=DAG("c", tasks=[]))]))])\<close>, outputs left at their default, does not compile:
  building the specification raises \<^verbatim>\<open>TypeError\<close>, at every recursion depth that
  reaches the innermost DAG.
\<close>

theorem chain_default_outputs_raises:
  "Workflow_build_spec (Suc (Suc (Suc n))) (chain_heap None []) chain_workflow = Some (Inl TypeError)"
proof -
  have "DAG_build (Suc (Suc (Suc n))) (chain_heap None []) 0 = Some (Inl TypeError)"
    by (simp add: chain_heap_shape)
  then show ?thesis
    by (simp add: Workflow_build_spec_def chain_heap_shape chain_task_templates
        del: DAG_build.simps DAG_build_templates.simps)
qed

section \<open>Shared resources\<close>














lemma collect_total:
  "list_all (\<lambda>x. \<exists>y. f x = Some (Inr y)) xs \<Longrightarrow> \<exists>ys. collect f xs = Some (Inr ys)"
  by (induction xs) auto

lemma tasks_present_volume_claims:
  "tasks_present n h d \<Longrightarrow> \<exists>vs. DAG_build_volume_claim_templates n h d = Some (Inr vs)"
proof (induction n arbitrary: d)
  case 0
  then show ?case by simp
next
  case (Suc n)
  then obtain ts where ts: "d_tasks (dag_at h d) = Some ts"
    and "list_all (tasks_present n h) (nested_dags h ts)"
    by (auto split: option.splits)
  then have "list_all (\<lambda>x. \<exists>y. DAG_build_volume_claim_templates n h x = Some (Inr y))
      (nested_dags h ts)"
    using Suc.IH by (simp add: list_all_iff)
  then obtain subs where
    "collect (DAG_build_volume_claim_templates n h) (nested_dags h ts) = Some (Inr subs)"
    using collect_total by blast
  with ts show ?case by simp
qed

lemma tasks_present_volumes:
  "tasks_present n h d \<Longrightarrow> \<exists>vs. DAG_build_persistent_volume_claims n h d = Some (Inr vs)"
proof (induction n arbitrary: d)
  case 0
  then show ?case by simp
next
  case (Suc n)
  then obtain ts where ts: "d_tasks (dag_at h d) = Some ts"
    and "list_all (tasks_present n h) (nested_dags h ts)"
    by (auto split: option.splits)
  then have "list_all (\<lambda>x. \<exists>y. DAG_build_persistent_volume_claims n h x = Some (Inr y))
      (nested_dags h ts)"
    using Suc.IH by (simp add: list_all_iff)
  then obtain subs where
    "collect (DAG_build_persistent_volume_claims n h) (nested_dags h ts) = Some (Inr subs)"
    using collect_total by blast
  with ts show ?case by simp
qed








section \<open>Recursion depth\<close>

text \<open>
  What a recursive operation returns or raises within some depth, it returns or raises
  within every greater depth: the depth allowed never changes a result.
\<close>

lemma collect_mono:
  assumes "\<And>x r. x \<in> set xs \<Longrightarrow> f x = Some r \<Longrightarrow> g x = Some r"
    and "collect f xs = Some rs"
  shows "collect g xs = Some rs"
  using assms
proof (induction xs arbitrary: rs)
  case Nil
  then show ?case by simp
next
  case (Cons x xs)
  from Cons.prems(2) obtain r where fx: "f x = Some r"
    by (auto split: option.splits)
  then have gx: "g x = Some r"
    using Cons.prems(1) by simp
  show ?case
  proof (cases r)
    case (Inl e)
    with fx gx Cons.prems(2) show ?thesis by simp
  next
    case (Inr y)
    with fx Cons.prems(2) obtain rs' where rs': "collect f xs = Some rs'"
      by (auto split: option.splits)
    then have "collect g xs = Some rs'"
      using Cons.IH Cons.prems(1) by simp
    with fx gx Inr rs' Cons.prems(2) show ?thesis by simp
  qed
qed

lemma DAG_build_deeper:
  "DAG_build n h d = Some r \<Longrightarrow> DAG_build (Suc n) h d = Some r"
proof (induction n arbitrary: d r)
  case 0
  then show ?case by simp
next
  case (Suc n)
  have step: "collect (DAG_build n h) ds = Some rs \<Longrightarrow> collect (DAG_build (Suc n) h) ds = Some rs"
    for ds rs
    using Suc.IH by (rule collect_mono)
  show ?case
  proof (cases "d_outputs (dag_at h d)")
    case None
    with Suc.prems show ?thesis by simp
  next
    case outs: (Some outs)
    show ?thesis
    proof (cases "d_tasks (dag_at h d)")
      case None
      with outs Suc.prems show ?thesis by simp
    next
      case (Some ts)
      from Suc.prems outs Some obtain rs where
        rs: "collect (DAG_build n h) (nested_dags h ts) = Some rs"
        by (auto split: option.splits)
      from step [OF rs] rs Suc.prems outs Some show ?thesis
        by (simp add: DAG_build.simps(2) [of "Suc n"] DAG_build.simps(2) [of n]
            del: DAG_build.simps)
    qed
  qed
qed

lemma DAG_build_templates_deeper:
  "DAG_build_templates n h d = Some r \<Longrightarrow> DAG_build_templates (Suc n) h d = Some r"
proof (induction n arbitrary: d r)
  case 0
  then show ?case by simp
next
  case (Suc n)
  have step: "collect (DAG_build_templates n h) ds = Some rs \<Longrightarrow>
      collect (DAG_build_templates (Suc n) h) ds = Some rs" for ds rs
    using Suc.IH by (rule collect_mono)
  show ?case
  proof (cases "d_tasks (dag_at h d)")
    case None
    with Suc.prems show ?thesis by simp
  next
    case (Some ts)
    from Suc.prems Some obtain rs where
      rs: "collect (DAG_build_templates n h) (nested_dags h ts) = Some rs"
      by (auto split: option.splits)
    from step [OF rs] rs Suc.prems Some show ?thesis
      by (simp add: DAG_build_templates.simps(2) [of "Suc n"] DAG_build_templates.simps(2) [of n]
          del: DAG_build_templates.simps)
  qed
qed

lemma DAG_build_volume_claim_templates_deeper:
  "DAG_build_volume_claim_templates n h d = Some r \<Longrightarrow>
   DAG_build_volume_claim_templates (Suc n) h d = Some r"
proof (induction n arbitrary: d r)
  case 0
  then show ?case by simp
next
  case (Suc n)
  have step: "collect (DAG_build_volume_claim_templates n h) ds = Some rs \<Longrightarrow>
      collect (DAG_build_volume_claim_templates (Suc n) h) ds = Some rs" for ds rs
    using Suc.IH by (rule collect_mono)
  show ?case
  proof (cases "d_tasks (dag_at h d)")
    case None
    with Suc.prems show ?thesis by simp
  next
    case (Some ts)
    from Suc.prems Some obtain rs where
      rs: "collect (DAG_build_volume_claim_templates n h) (nested_dags h ts) = Some rs"
      by (auto split: option.splits)
    from step [OF rs] rs Suc.prems Some show ?thesis
      by (simp add: DAG_build_volume_claim_templates.simps(2) [of "Suc n"]
          DAG_build_volume_claim_templates.simps(2) [of n]
          del: DAG_build_volume_claim_templates.simps)
  qed
qed

lemma DAG_build_persistent_volume_claims_deeper:
  "DAG_build_persistent_volume_claims n h d = Some r \<Longrightarrow>
   DAG_build_persistent_volume_claims (Suc n) h d = Some r"
proof (induction n arbitrary: d r)
  case 0
  then show ?case by simp
next
  case (Suc n)
  have step: "collect (DAG_build_persistent_volume_claims n h) ds = Some rs \<Longrightarrow>
      collect (DAG_build_persistent_volume_claims (Suc n) h) ds = Some rs" for ds rs
    using Suc.IH by (rule collect_mono)
  show ?case
  proof (cases "d_tasks (dag_at h d)")
    case None
    with Suc.prems show ?thesis by simp
  next
    case (Some ts)
    from Suc.prems Some obtain rs where
      rs: "collect (DAG_build_persistent_volume_claims n h) (nested_dags h ts) = Some rs"
      by (auto split: option.splits)
    from step [OF rs] rs Suc.prems Some show ?thesis
      by (simp add: DAG_build_persistent_volume_claims.simps(2) [of "Suc n"]
          DAG_build_persistent_volume_claims.simps(2) [of n]
          del: DAG_build_persistent_volume_claims.simps)
  qed
qed

lemma Workflow_build_spec_deeper:
  assumes "Workflow_build_spec n h w = Some r"
  shows "Workflow_build_spec (Suc n) h w = Some r"
proof -
  note [simp del] = DAG_build.simps DAG_build_templates.simps
    DAG_build_volume_claim_templates.simps DAG_build_persistent_volume_claims.simps
  let ?d = "w_dag w"
  consider
    (templates) e where "DAG_build_templates n h ?d = Some (Inl e)"
  | (build) x e where "DAG_build_templates n h ?d = Some (Inr x)" "DAG_build n h ?d = Some (Inl e)"
  | (claims) x y e where "DAG_build_templates n h ?d = Some (Inr x)" "DAG_build n h ?d = Some (Inr y)"
      "DAG_build_volume_claim_templates n h ?d = Some (Inl e)"
  | (volumes) x y z e where "DAG_build_templates n h ?d = Some (Inr x)" "DAG_build n h ?d = Some (Inr y)"
      "DAG_build_volume_claim_templates n h ?d = Some (Inr z)"
      "DAG_build_persistent_volume_claims n h ?d = Some e"
    using assms by (auto simp: Workflow_build_spec_def split: option.splits sum.splits)
  then show ?thesis
  proof cases
    case templates
    from DAG_build_templates_deeper [OF this] templates assms show ?thesis
      by (simp add: Workflow_build_spec_def)
  next
    case build
    from DAG_build_templates_deeper [OF build(1)] DAG_build_deeper [OF build(2)] build assms
    show ?thesis
      by (simp add: Workflow_build_spec_def)
  next
    case claims
    from DAG_build_templates_deeper [OF claims(1)] DAG_build_deeper [OF claims(2)]
      DAG_build_volume_claim_templates_deeper [OF claims(3)] claims assms
    show ?thesis
      by (simp add: Workflow_build_spec_def)
  next
    case volumes
    from DAG_build_templates_deeper [OF volumes(1)] DAG_build_deeper [OF volumes(2)]
      DAG_build_volume_claim_templates_deeper [OF volumes(3)]
      DAG_build_persistent_volume_claims_deeper [OF volumes(4)] volumes assms
    show ?thesis
      by (simp add: Workflow_build_spec_def)
  qed
qed


section \<open>A DAG as exit hook\<close>











section \<open>Three nested levels, compiled\<close>

text \<open>
  With outputs and tasks given as lists, a three-level nesting compiles to the
  templates its tasks have of their own, followed by exactly three DAG templates, one
  for each level, outermost first.
\<close>

lemma three_level_spec:
  assumes "d_tasks (dag_at h (w_dag w)) = Some [t1]" "t_dag (task_at h t1) = Some d2"
    and "d_tasks (dag_at h d2) = Some [t2]" "t_dag (task_at h t2) = Some d3"
    and "d_tasks (dag_at h d3) = Some leaves" "nested_dags h leaves = []"
    and "d_outputs (dag_at h (w_dag w)) = Some o1" "d_outputs (dag_at h d2) = Some o2"
        "d_outputs (dag_at h d3) = Some o3"
  shows "\<exists>spec. Workflow_build_spec (Suc (Suc (Suc n))) h w = Some (Inr spec) \<and>
           spec_templates spec =
             List.map_filter (\<lambda>r. Task_build_template (task_at h r)) ([t1, t2] @ leaves) @
             [DAG_own_template h (w_dag w) o1, DAG_own_template h d2 o2, DAG_own_template h d3 o3]"
proof -
  have "tasks_present (Suc n) h d3"
    using assms by simp
  then have "tasks_present (Suc (Suc n)) h d2"
    using assms by (simp add: nested_dags_single del: tasks_present.simps(2)
        add: tasks_present.simps(2)[of "Suc n"])
  then have "tasks_present (Suc (Suc (Suc n))) h (w_dag w)"
    using assms by (simp add: nested_dags_single del: tasks_present.simps(2)
        add: tasks_present.simps(2)[of "Suc (Suc n)"])
  then obtain vs ps where
    "DAG_build_volume_claim_templates (Suc (Suc (Suc n))) h (w_dag w) = Some (Inr vs)"
    "DAG_build_persistent_volume_claims (Suc (Suc (Suc n))) h (w_dag w) = Some (Inr ps)"
    using tasks_present_volume_claims tasks_present_volumes by blast
  then show ?thesis
    using three_level_task_templates [OF assms(1-6), of n] three_level_dag_templates [OF assms, of n]
    by (simp add: Workflow_build_spec_def del: DAG_build.simps DAG_build_templates.simps
        DAG_build_volume_claim_templates.simps DAG_build_persistent_volume_claims.simps)
qed


end
